theory Spec2Isabelle
  imports Main
begin

section \<open>Code Level Metrics: a model of code\_level\_metrics.go\<close>

text \<open>
  The definitions follow \<^verbatim>\<open>v3/newrelic/code_level_metrics.go\<close> function by function.
  Go strings are byte strings and are modelled as \<^typ>\<open>string\<close>; a Go slice of strings is
  a \<^typ>\<open>string list option\<close>, where \<^term>\<open>None\<close> is the nil slice (the source tests
  slices against nil, and an empty slice is not nil); a pointer that may be nil is an
  option as well. The call stack, which the source reads through the Go runtime, is an
  explicit list of frames, innermost frame first.
\<close>

subsection \<open>Go strings and slices\<close>

text \<open>\<^verbatim>\<open>strings.HasPrefix(s, prefix)\<close>.\<close>

definition HasPrefix :: "string \<Rightarrow> string \<Rightarrow> bool" where
  "HasPrefix s p = (length p \<le> length s \<and> take (length p) s = p)"

text \<open>\<^verbatim>\<open>strings.Index(s, substr)\<close>: the index of the first occurrence, or -1.\<close>

fun Index :: "string \<Rightarrow> string \<Rightarrow> int" where
  "Index [] sub = (if sub = [] then 0 else -1)"
| "Index (c # cs) sub =
     (if HasPrefix (c # cs) sub then 0
      else (let r = Index cs sub in if r < 0 then -1 else r + 1))"

text \<open>\<^verbatim>\<open>strings.LastIndex(s, substr)\<close>: the index of the last occurrence, or -1.\<close>

fun LastIndex :: "string \<Rightarrow> string \<Rightarrow> int" where
  "LastIndex [] sub = (if sub = [] then 0 else -1)"
| "LastIndex (c # cs) sub =
     (let r = LastIndex cs sub in
      if 0 \<le> r then r + 1
      else if HasPrefix (c # cs) sub then 0 else -1)"

text \<open>A slice of strings: \<^term>\<open>None\<close> is nil. Ranging over nil visits nothing;
  \<^verbatim>\<open>append\<close> to nil allocates.\<close>

type_synonym strSlice = "string list option"

definition elems :: "strSlice \<Rightarrow> string list" where
  "elems s = (case s of None \<Rightarrow> [] | Some xs \<Rightarrow> xs)"

definition append_slice :: "strSlice \<Rightarrow> string \<Rightarrow> strSlice" where
  "append_slice s x = Some (elems s @ [x])"

text \<open>Go's \<^verbatim>\<open>int\<close>, taken as 64 bits wide: addition wraps around.\<close>

definition wrap64 :: "int \<Rightarrow> int" where
  "wrap64 x = signed_take_bit 63 x"

subsection \<open>Data model\<close>

definition defaultAgentProjectRoot :: string where
  "defaultAgentProjectRoot = ''github.com/newrelic/go-agent/''"

record CodeLocation =
  LineNo :: int
  Function :: string
  FilePath :: string

type_synonym error = string

record CachedCodeLocation =
  Location :: "CodeLocation option"
  Err :: "error option"
  once :: bool  \<comment> \<open>the state of the \<^verbatim>\<open>sync.Once\<close>: has its function been run\<close>

record traceOptSet =
  LocationOverride :: "CodeLocation option"
  SuppressCLM :: bool
  DemandCLM :: bool
  IgnoredPrefixes :: strSlice
  PathPrefixes :: strSlice

text \<open>The zero values of the three structs.\<close>

definition zeroCodeLocation :: CodeLocation where
  "zeroCodeLocation = \<lparr>LineNo = 0, Function = [], FilePath = []\<rparr>"

definition zeroCachedCodeLocation :: CachedCodeLocation where
  "zeroCachedCodeLocation = \<lparr>Location = None, Err = None, once = False\<rparr>"

definition zeroTraceOptSet :: traceOptSet where
  "zeroTraceOptSet = \<lparr>LocationOverride = None, SuppressCLM = False, DemandCLM = False,
     IgnoredPrefixes = None, PathPrefixes = None\<rparr>"

text \<open>The fields of \<^verbatim>\<open>run.Config.CodeLevelMetrics\<close> that the source reads. The
  configuration type is declared elsewhere in the agent.\<close>

record clmConfig =
  cfgIgnoredPrefixes :: strSlice
  cfgIgnoredPrefix :: string
  cfgPathPrefixes :: strSlice
  cfgPathPrefix :: string

subsection \<open>The Go runtime as the source uses it\<close>

text \<open>\<^verbatim>\<open>runtime.Frame\<close>, with the three fields the source reads.\<close>

record Frame =
  frame_Function :: string
  frame_File :: string
  frame_Line :: int

definition zeroFrame :: Frame where
  "zeroFrame = \<lparr>frame_Function = [], frame_File = [], frame_Line = 0\<rparr>"

text \<open>\<^verbatim>\<open>runtime.Callers(skip, pcs)\<close> on a stack whose head is the frame of
  \<^verbatim>\<open>Callers\<close> itself: it skips \<open>skip\<close> frames (a negative skip skips none) and stores
  as many of the following frames as the buffer of length \<open>n\<close> holds. The result stands
  for \<^verbatim>\<open>pcs[:depth]\<close>.\<close>

definition runtime_Callers :: "int \<Rightarrow> nat \<Rightarrow> Frame list \<Rightarrow> Frame list" where
  "runtime_Callers skip n stack = take n (drop (nat skip) stack)"

text \<open>\<^verbatim>\<open>frames.Next()\<close> of \<^verbatim>\<open>runtime.CallersFrames\<close>: the next frame, whether more
  frames follow it, and the rest of the iterator.\<close>

definition Frames_Next :: "Frame list \<Rightarrow> Frame \<times> bool \<times> Frame list" where
  "Frames_Next fs = (case fs of [] \<Rightarrow> (zeroFrame, False, []) | f # rest \<Rightarrow> (f, rest \<noteq> [], rest))"

text \<open>A value passed as \<^verbatim>\<open>interface{}\<close>: the nil interface, or a value with its kind.
  A func value carries its code pointer (\<^verbatim>\<open>v.Pointer()\<close>), which is 0 for a nil func.\<close>

datatype goValue = NilInterface | IntValue int | StringValue string | FuncValue nat

datatype reflectKind = reflect_Invalid | reflect_Int | reflect_String | reflect_Func

definition reflect_Kind :: "goValue \<Rightarrow> reflectKind" where
  "reflect_Kind v = (case v of NilInterface \<Rightarrow> reflect_Invalid | IntValue _ \<Rightarrow> reflect_Int
     | StringValue _ \<Rightarrow> reflect_String | FuncValue _ \<Rightarrow> reflect_Func)"

definition reflect_IsValid :: "goValue \<Rightarrow> bool" where
  "reflect_IsValid v = (v \<noteq> NilInterface)"

text \<open>\<^verbatim>\<open>runtime.FuncForPC\<close>: what the symbol table of the running program knows about a
  code pointer: the name of the function and the file and line of its entry point. The
  table is a parameter of every function that looks a function up.\<close>

record FuncInfo =
  fi_Name :: string
  fi_File :: string
  fi_Line :: int

type_synonym funcTable = "nat \<Rightarrow> FuncInfo option"

subsection \<open>Frames of the functions of this file\<close>

text \<open>The frames that the functions of this file put on the stack themselves while they
  call into the runtime, with the line of the call. A frame of Go's own library carries
  the line 0: its line is not known from this file, and nothing proved depends on it.\<close>

definition frame_runtime_Callers :: Frame where
  "frame_runtime_Callers = \<lparr>frame_Function = ''runtime.Callers'',
     frame_File = ''runtime/extern.go'', frame_Line = 0\<rparr>"

definition frame_ThisCodeLocation :: Frame where
  "frame_ThisCodeLocation =
     \<lparr>frame_Function = ''github.com/newrelic/go-agent/v3/newrelic.ThisCodeLocation'',
      frame_File = ''v3/newrelic/code_level_metrics.go'', frame_Line = 335\<rparr>"

definition frame_Cached_ThisCodeLocation :: Frame where
  "frame_Cached_ThisCodeLocation =
     \<lparr>frame_Function = ''github.com/newrelic/go-agent/v3/newrelic.(*CachedCodeLocation).ThisCodeLocation'',
      frame_File = ''v3/newrelic/code_level_metrics.go'', frame_Line = 366\<rparr>"

definition frame_Cached_ThisCodeLocation_func1 :: Frame where
  "frame_Cached_ThisCodeLocation_func1 =
     \<lparr>frame_Function = ''github.com/newrelic/go-agent/v3/newrelic.(*CachedCodeLocation).ThisCodeLocation.func1'',
      frame_File = ''v3/newrelic/code_level_metrics.go'', frame_Line = 368\<rparr>"

definition frame_reportCodeLevelMetrics :: Frame where
  "frame_reportCodeLevelMetrics =
     \<lparr>frame_Function = ''github.com/newrelic/go-agent/v3/newrelic.reportCodeLevelMetrics'',
      frame_File = ''v3/newrelic/code_level_metrics.go'', frame_Line = 405\<rparr>"

text \<open>The frames that \<^verbatim>\<open>sync.Once.Do\<close> of Go 1.13 and later puts between its caller and
  the function it runs: \<^verbatim>\<open>Do\<close> calls \<^verbatim>\<open>doSlow\<close>, which calls the function.\<close>

definition syncOnceFrames :: "Frame list" where
  "syncOnceFrames =
     [\<lparr>frame_Function = ''sync.(*Once).doSlow'', frame_File = ''sync/once.go'', frame_Line = 0\<rparr>,
      \<lparr>frame_Function = ''sync.(*Once).Do'', frame_File = ''sync/once.go'', frame_Line = 0\<rparr>]"

subsection \<open>Trace options\<close>

text \<open>A \<^verbatim>\<open>TraceOption\<close> is a function that mutates the option set it is given. The
  options made from a \<^verbatim>\<open>CachedCodeLocation\<close> also mutate that receiver, so an option is
  a function on the pair of the store of all cache receivers (addressed by reference) and
  the option set.\<close>

type_synonym heap = "nat \<Rightarrow> CachedCodeLocation"

type_synonym TraceOption = "heap \<times> traceOptSet \<Rightarrow> heap \<times> traceOptSet"

definition WithCodeLocation :: "CodeLocation option \<Rightarrow> TraceOption" where
  "WithCodeLocation loc = (\<lambda>(h, os). (h, os\<lparr>LocationOverride := loc\<rparr>))"

definition WithIgnoredPrefix :: "strSlice \<Rightarrow> TraceOption" where
  "WithIgnoredPrefix prefix = (\<lambda>(h, os). (h, os\<lparr>IgnoredPrefixes := prefix\<rparr>))"

definition WithPathPrefix :: "strSlice \<Rightarrow> TraceOption" where
  "WithPathPrefix prefix = (\<lambda>(h, os). (h, os\<lparr>PathPrefixes := prefix\<rparr>))"

definition WithoutCodeLevelMetrics :: TraceOption where
  "WithoutCodeLevelMetrics = (\<lambda>(h, os). (h, os\<lparr>SuppressCLM := True\<rparr>))"

definition WithCodeLevelMetrics :: TraceOption where
  "WithCodeLevelMetrics = (\<lambda>(h, os). (h, os\<lparr>DemandCLM := True\<rparr>))"

subsection \<open>FunctionLocation and its cached variant\<close>

definition reflect_Pointer :: "goValue \<Rightarrow> nat" where
  "reflect_Pointer v = (case v of FuncValue p \<Rightarrow> p | _ \<Rightarrow> 0)"

text \<open>The Go function returns the pair of a pointer and an error; so does the model.\<close>

definition FunctionLocation :: "funcTable \<Rightarrow> goValue \<Rightarrow> CodeLocation option \<times> error option" where
  "FunctionLocation rt function =
     (if function = NilInterface then
        (None, Some ''nil function passed to FunctionLocation'')
      else if \<not> reflect_IsValid function \<or> reflect_Kind function \<noteq> reflect_Func then
        (None, Some ''value passed to FunctionLocation is not a function'')
      else (case rt (reflect_Pointer function) of
          Some fInfo \<Rightarrow>
            (Some \<lparr>LineNo = fi_Line fInfo, Function = fi_Name fInfo, FilePath = fi_File fInfo\<rparr>, None)
        | None \<Rightarrow> (None, Some ''could not find code location for function'')))"

text \<open>\<^verbatim>\<open>c.once.Do(f)\<close>, sequentially: \<open>f\<close> runs unless the once has run a function
  before, and the once has run a function afterwards.\<close>

definition once_Do :: "CachedCodeLocation \<Rightarrow> (CachedCodeLocation \<Rightarrow> CachedCodeLocation) \<Rightarrow> CachedCodeLocation" where
  "once_Do c f = (if once c then c else (f c)\<lparr>once := True\<rparr>)"

text \<open>The methods of \<^verbatim>\<open>CachedCodeLocation\<close> take the receiver and return it updated,
  together with their results.\<close>

definition Cached_FunctionLocation ::
    "funcTable \<Rightarrow> CachedCodeLocation \<Rightarrow> goValue \<Rightarrow> CachedCodeLocation \<times> CodeLocation option \<times> error option" where
  "Cached_FunctionLocation rt c function =
     (let c' = once_Do c (\<lambda>c. case FunctionLocation rt function of
                 (loc, err) \<Rightarrow> c\<lparr>Location := loc, Err := err\<rparr>)
      in (c', Location c', Err c'))"

definition WithFunctionLocation :: "funcTable \<Rightarrow> goValue \<Rightarrow> TraceOption" where
  "WithFunctionLocation rt function = (\<lambda>(h, os).
     (case FunctionLocation rt function of
        (loc, err) \<Rightarrow> if err = None then (h, os\<lparr>LocationOverride := loc\<rparr>) else (h, os)))"

definition Cached_WithFunctionLocation :: "funcTable \<Rightarrow> nat \<Rightarrow> goValue \<Rightarrow> TraceOption" where
  "Cached_WithFunctionLocation rt c function = (\<lambda>(h, os).
     (case Cached_FunctionLocation rt (h c) function of
        (c', loc, err) \<Rightarrow>
          if err = None then (h(c := c'), os\<lparr>LocationOverride := loc\<rparr>) else (h(c := c'), os)))"

definition WithDefaultFunctionLocation :: "funcTable \<Rightarrow> goValue \<Rightarrow> TraceOption" where
  "WithDefaultFunctionLocation rt function = (\<lambda>(h, os).
     if LocationOverride os = None then WithFunctionLocation rt function (h, os) else (h, os))"

definition Cached_WithDefaultFunctionLocation :: "funcTable \<Rightarrow> nat \<Rightarrow> goValue \<Rightarrow> TraceOption" where
  "Cached_WithDefaultFunctionLocation rt c function = (\<lambda>(h, os).
     if LocationOverride os = None then
       (case Cached_FunctionLocation rt (h c) function of
          (c', loc, err) \<Rightarrow>
            if err = None then WithCodeLocation loc (h(c := c'), os) else (h(c := c'), os))
     else (h, os))"

definition withPreparedOptions :: "traceOptSet option \<Rightarrow> TraceOption" where
  "withPreparedOptions newOptions = (\<lambda>(h, os).
     (case newOptions of
        None \<Rightarrow> (h, os)
      | Some new \<Rightarrow>
          (let os1 = (if LocationOverride new \<noteq> None
                      then os\<lparr>LocationOverride := LocationOverride new\<rparr> else os);
               os2 = os1\<lparr>SuppressCLM := SuppressCLM new\<rparr>;
               os3 = os2\<lparr>DemandCLM := DemandCLM new\<rparr>;
               os4 = (if IgnoredPrefixes new \<noteq> None
                      then os3\<lparr>IgnoredPrefixes := IgnoredPrefixes new\<rparr> else os3);
               os5 = (if PathPrefixes new \<noteq> None
                      then os4\<lparr>PathPrefixes := PathPrefixes new\<rparr> else os4)
           in (h, os5))))"

subsection \<open>ThisCodeLocation and its cached variant\<close>

text \<open>\<open>stack\<close> is the call stack at the place of the call, the caller's frame first. The
  variadic parameter is the list of its arguments.\<close>

definition ThisCodeLocation :: "Frame list \<Rightarrow> int list \<Rightarrow> CodeLocation" where
  "ThisCodeLocation stack skipLevels =
     (let skip = (case skipLevels of [] \<Rightarrow> 2 | s # _ \<Rightarrow> wrap64 (2 + s));
          pcs = runtime_Callers skip 10 (frame_runtime_Callers # frame_ThisCodeLocation # stack);
          depth = length pcs
      in if depth > 0 then
           (case Frames_Next (take 1 pcs) of
              (frame, _) \<Rightarrow> \<lparr>LineNo = frame_Line frame, Function = frame_Function frame,
                              FilePath = frame_File frame\<rparr>)
         else zeroCodeLocation)"

text \<open>\<open>onceFrames\<close> are the frames that \<^verbatim>\<open>sync.Once.Do\<close> puts on the stack between the
  method and the function literal it runs. They belong to Go's library, not to this file,
  and are a parameter.\<close>

definition Cached_ThisCodeLocation ::
    "Frame list \<Rightarrow> Frame list \<Rightarrow> CachedCodeLocation \<Rightarrow> int list \<Rightarrow> CachedCodeLocation \<times> CodeLocation option" where
  "Cached_ThisCodeLocation onceFrames stack c skiplevels =
     (let skip = (case skiplevels of [] \<Rightarrow> 0 | s # _ \<Rightarrow> s);
          c' = once_Do c (\<lambda>c. c\<lparr>Location := Some (ThisCodeLocation
                   (frame_Cached_ThisCodeLocation_func1 # onceFrames @ frame_Cached_ThisCodeLocation # stack)
                   [wrap64 (skip + 4)]),
                 Err := None\<rparr>)
      in (c', Location c'))"

subsection \<open>Evaluating a list of options\<close>

fun optionsLoop :: "TraceOption list \<Rightarrow> heap \<times> traceOptSet \<Rightarrow> heap \<times> traceOptSet" where
  "optionsLoop [] st = st"
| "optionsLoop (opt # rest) st =
     (let st' = opt st in if SuppressCLM (snd st') then st' else optionsLoop rest st')"

definition resolveCLMTraceOptions :: "TraceOption list \<Rightarrow> heap \<Rightarrow> heap \<times> traceOptSet" where
  "resolveCLMTraceOptions options h = optionsLoop options (h, zeroTraceOptSet)"

subsection \<open>reportCodeLevelMetrics\<close>

text \<open>The names of the four attributes are constants declared elsewhere in the agent; they
  are kept abstract. A call of \<^verbatim>\<open>setAttr\<close> is recorded as the triple of its arguments,
  and the function returns the calls it makes, in order.\<close>

datatype attrName = AttributeCodeLineno | AttributeCodeNamespace | AttributeCodeFilepath
  | AttributeCodeFunction

type_synonym setAttrCall = "attrName \<times> string \<times> goValue"

text \<open>Lines 411 to 420: the ignore list that the stack walk uses.\<close>

definition effectiveIgnoredPrefixes :: "traceOptSet \<Rightarrow> clmConfig \<Rightarrow> strSlice" where
  "effectiveIgnoredPrefixes tOpts cfg =
     (if IgnoredPrefixes tOpts = None then
        (let p1 = cfgIgnoredPrefixes cfg;
             p2 = (if cfgIgnoredPrefix cfg \<noteq> [] then append_slice p1 (cfgIgnoredPrefix cfg) else p1)
         in if p2 = None then append_slice p2 defaultAgentProjectRoot else p2)
      else IgnoredPrefixes tOpts)"

text \<open>Lines 425 to 432: the function literal that decides whether the walk stops at a frame.\<close>

fun notIgnored :: "string list \<Rightarrow> Frame \<Rightarrow> bool" where
  "notIgnored [] frame = True"
| "notIgnored (eachPrefix # rest) frame =
     (if HasPrefix (frame_Function frame) eachPrefix then False else notIgnored rest frame)"

text \<open>Lines 423 to 435: the loop over the frames, with the loop variables \<open>frame\<close> and
  \<open>moreToRead\<close> and the iterator as its state.\<close>

function skipAgentFrames :: "string list \<Rightarrow> Frame \<Rightarrow> bool \<Rightarrow> Frame list \<Rightarrow> Frame" where
  "skipAgentFrames ignored frame moreToRead frames =
     (if moreToRead then
        (case Frames_Next frames of
           (frame', moreToRead', frames') \<Rightarrow>
             if notIgnored ignored frame' then frame'
             else skipAgentFrames ignored frame' moreToRead' frames')
      else frame)"
  by pat_completeness auto
termination
  by (relation "measure (\<lambda>(ignored, frame, moreToRead, frames).
        2 * length frames + (if moreToRead then 1 else 0))")
     (auto simp: Frames_Next_def split: list.splits)

declare skipAgentFrames.simps [simp del]

text \<open>Lines 401 to 441: the location to report.\<close>

definition resolveLocation :: "traceOptSet \<Rightarrow> clmConfig \<Rightarrow> Frame list \<Rightarrow> CodeLocation" where
  "resolveLocation tOpts cfg stack =
     (case LocationOverride tOpts of
        Some loc \<Rightarrow> loc
      | None \<Rightarrow>
          (let pcs = runtime_Callers 2 10 (frame_runtime_Callers # frame_reportCodeLevelMetrics # stack);
               depth = length pcs
           in if depth > 0 then
                (let frame = skipAgentFrames (elems (effectiveIgnoredPrefixes tOpts cfg))
                               zeroFrame True pcs
                 in \<lparr>LineNo = frame_Line frame, Function = frame_Function frame,
                      FilePath = frame_File frame\<rparr>)
              else zeroCodeLocation))"

text \<open>Lines 443 to 449: the list of path prefixes.\<close>

definition effectivePathPrefixes :: "traceOptSet \<Rightarrow> clmConfig \<Rightarrow> strSlice" where
  "effectivePathPrefixes tOpts cfg =
     (if PathPrefixes tOpts = None then
        (let p1 = cfgPathPrefixes cfg
         in if cfgPathPrefix cfg \<noteq> [] then append_slice p1 (cfgPathPrefix cfg) else p1)
      else PathPrefixes tOpts)"

text \<open>Lines 452 to 459: the loop that trims the file path.\<close>

fun trimFilePath :: "string list \<Rightarrow> string \<Rightarrow> string" where
  "trimFilePath [] path = path"
| "trimFilePath (prefix # rest) path =
     (let i = Index path prefix in if 0 \<le> i then drop (nat i) path else trimFilePath rest path)"

text \<open>Lines 461 to 468: namespace and function.\<close>

definition splitFunction :: "string \<Rightarrow> string \<times> string" where
  "splitFunction name =
     (let ns = LastIndex name ''.''
      in if 0 \<le> ns then (take (nat ns) name, drop (nat (ns + 1)) name) else ([], name))"

definition reportCodeLevelMetrics :: "traceOptSet \<Rightarrow> clmConfig \<Rightarrow> Frame list \<Rightarrow> setAttrCall list" where
  "reportCodeLevelMetrics tOpts cfg stack =
     (let location = resolveLocation tOpts cfg stack;
          filePath = trimFilePath (elems (effectivePathPrefixes tOpts cfg)) (FilePath location)
      in (case splitFunction (Function location) of
            (namespace, function) \<Rightarrow>
              [(AttributeCodeLineno, [], IntValue (LineNo location)),
               (AttributeCodeNamespace, namespace, NilInterface),
               (AttributeCodeFilepath, filePath, NilInterface),
               (AttributeCodeFunction, function, NilInterface)]))"

section \<open>Properties\<close>

subsection \<open>Facts about the string functions\<close>

lemma HasPrefix_single: "HasPrefix s [c] = (s \<noteq> [] \<and> hd s = c)"
  by (cases s) (auto simp: HasPrefix_def)

lemma LastIndex_absent: "c \<notin> set s \<Longrightarrow> LastIndex s [c] = -1"
  by (induction s) (auto simp: HasPrefix_single Let_def)

lemma LastIndex_last: "c \<notin> set fn \<Longrightarrow> LastIndex (pre @ c # fn) [c] = int (length pre)"
proof (induction pre)
  case Nil
  then show ?case by (simp add: LastIndex_absent HasPrefix_single Let_def)
next
  case (Cons a pre)
  then show ?case by (simp add: Let_def)
qed

lemma splitFunction_dot:
  "CHR ''.'' \<notin> set fn \<Longrightarrow> splitFunction (pre @ CHR ''.'' # fn) = (pre, fn)"
  by (simp add: splitFunction_def LastIndex_last Let_def nat_add_distrib)

lemma splitFunction_nodot:
  "CHR ''.'' \<notin> set name \<Longrightarrow> splitFunction name = ([], name)"
  by (simp add: splitFunction_def LastIndex_absent Let_def)

subsection \<open>The calls of the attribute sink\<close>

lemma reportCodeLevelMetrics_calls:
  "reportCodeLevelMetrics tOpts cfg stack =
     [(AttributeCodeLineno, [], IntValue (LineNo (resolveLocation tOpts cfg stack))),
      (AttributeCodeNamespace, fst (splitFunction (Function (resolveLocation tOpts cfg stack))),
         NilInterface),
      (AttributeCodeFilepath,
         trimFilePath (elems (effectivePathPrefixes tOpts cfg))
           (FilePath (resolveLocation tOpts cfg stack)), NilInterface),
      (AttributeCodeFunction, snd (splitFunction (Function (resolveLocation tOpts cfg stack))),
         NilInterface)]"
  by (simp add: reportCodeLevelMetrics_def Let_def split: prod.splits)

lemma effectiveIgnoredPrefixes_SuppressCLM:
  "effectiveIgnoredPrefixes (tOpts\<lparr>SuppressCLM := b\<rparr>) cfg = effectiveIgnoredPrefixes tOpts cfg"
  by (simp add: effectiveIgnoredPrefixes_def)

lemma resolveLocation_SuppressCLM:
  "resolveLocation (tOpts\<lparr>SuppressCLM := b\<rparr>) cfg stack = resolveLocation tOpts cfg stack"
  unfolding resolveLocation_def effectiveIgnoredPrefixes_SuppressCLM by simp

lemma effectivePathPrefixes_SuppressCLM:
  "effectivePathPrefixes (tOpts\<lparr>SuppressCLM := b\<rparr>) cfg = effectivePathPrefixes tOpts cfg"
  by (simp add: effectivePathPrefixes_def)

subsection \<open>C9: namespace and function\<close>

text \<open>
  Claim C9. reportCodeLevelMetrics splits the fully-qualified function name at its last
  dot: a name that is \<open>pre\<close>, a dot and a dot-free \<open>fn\<close> gives the namespace \<open>pre\<close> and the
  function \<open>fn\<close>; a name without a dot gives the empty namespace and the whole name as the
  function. The second and the fourth call of the attribute sink carry the two parts.
  The name \<open>mypkg/sub.Handler\<close> gives \<open>mypkg/sub\<close> and \<open>Handler\<close>.
\<close>

theorem C9_namespace_split:
  "(CHR ''.'' \<notin> set fn \<longrightarrow> splitFunction (pre @ CHR ''.'' # fn) = (pre, fn))
   \<and> (CHR ''.'' \<notin> set name \<longrightarrow> splitFunction name = ([], name))
   \<and> splitFunction ''mypkg/sub.Handler'' = (''mypkg/sub'', ''Handler'')
   \<and> reportCodeLevelMetrics tOpts cfg stack ! 1 =
       (AttributeCodeNamespace, fst (splitFunction (Function (resolveLocation tOpts cfg stack))),
        NilInterface)
   \<and> reportCodeLevelMetrics tOpts cfg stack ! 3 =
       (AttributeCodeFunction, snd (splitFunction (Function (resolveLocation tOpts cfg stack))),
        NilInterface)"
proof -
  have ex: "splitFunction ''mypkg/sub.Handler'' = (''mypkg/sub'', ''Handler'')"
    using splitFunction_dot [of "''Handler''" "''mypkg/sub''"] by simp
  show ?thesis
    by (simp add: splitFunction_dot splitFunction_nodot ex reportCodeLevelMetrics_calls)
qed

theorem C9_namespace_split_witness:
  "CHR ''.'' \<notin> set ''Handler''
   \<and> splitFunction (''github.com/app/pkg'' @ CHR ''.'' # ''Handler'') = (''github.com/app/pkg'', ''Handler'')
   \<and> CHR ''.'' \<notin> set ''main''
   \<and> splitFunction ''main'' = ([], ''main'')
   \<and> reportCodeLevelMetrics
        (zeroTraceOptSet\<lparr>LocationOverride :=
           Some \<lparr>LineNo = 7, Function = ''main'', FilePath = ''/src/main.go''\<rparr>\<rparr>)
        \<lparr>cfgIgnoredPrefixes = None, cfgIgnoredPrefix = [], cfgPathPrefixes = None,
         cfgPathPrefix = []\<rparr> [] ! 3 = (AttributeCodeFunction, ''main'', NilInterface)"
  using C9_namespace_split [where fn = "''Handler''" and pre = "''github.com/app/pkg''"
      and name = "''main''" and stack = "[]"
      and tOpts = "zeroTraceOptSet\<lparr>LocationOverride :=
           Some \<lparr>LineNo = 7, Function = ''main'', FilePath = ''/src/main.go''\<rparr>\<rparr>"
      and cfg = "\<lparr>cfgIgnoredPrefixes = None, cfgIgnoredPrefix = [], cfgPathPrefixes = None,
         cfgPathPrefix = []\<rparr>"]
  by (simp add: resolveLocation_def zeroTraceOptSet_def)

subsection \<open>C2: suppression and the attribute sink\<close>

text \<open>
  Claim C2, amended. reportCodeLevelMetrics does not read the SuppressCLM field: with the
  field set to either value it makes the same four calls of the attribute sink, for the
  line number, the namespace, the file path and the function, in this order. Whether a
  suppressed trace is reported is decided by the caller, before the call.
\<close>

theorem C2_suppress_not_read:
  "reportCodeLevelMetrics (tOpts\<lparr>SuppressCLM := b\<rparr>) cfg stack = reportCodeLevelMetrics tOpts cfg stack
   \<and> map fst (reportCodeLevelMetrics tOpts cfg stack) =
       [AttributeCodeLineno, AttributeCodeNamespace, AttributeCodeFilepath, AttributeCodeFunction]"
  by (simp add: reportCodeLevelMetrics_calls resolveLocation_SuppressCLM
      effectivePathPrefixes_SuppressCLM)

theorem C2_suppress_not_read_witness:
  "map fst (reportCodeLevelMetrics
       (zeroTraceOptSet\<lparr>LocationOverride :=
           Some \<lparr>LineNo = 7, Function = ''main.run'', FilePath = ''/src/main.go''\<rparr>,
          SuppressCLM := True\<rparr>)
       \<lparr>cfgIgnoredPrefixes = None, cfgIgnoredPrefix = [], cfgPathPrefixes = None,
        cfgPathPrefix = []\<rparr> []) =
     [AttributeCodeLineno, AttributeCodeNamespace, AttributeCodeFilepath, AttributeCodeFunction]"
  using C2_suppress_not_read [where b = True and stack = "[]"
      and tOpts = "zeroTraceOptSet\<lparr>LocationOverride :=
           Some \<lparr>LineNo = 7, Function = ''main.run'', FilePath = ''/src/main.go''\<rparr>\<rparr>"
      and cfg = "\<lparr>cfgIgnoredPrefixes = None, cfgIgnoredPrefix = [], cfgPathPrefixes = None,
        cfgPathPrefix = []\<rparr>"]
  by simp

text \<open>
  Claim C2 as stated fails: with SuppressCLM set and an explicit location, the attribute
  sink is called four times.
\<close>

theorem C2_suppressed_report_counterexample:
  "SuppressCLM (zeroTraceOptSet\<lparr>LocationOverride :=
           Some \<lparr>LineNo = 7, Function = ''main.run'', FilePath = ''/src/main.go''\<rparr>,
          SuppressCLM := True\<rparr>)
   \<and> reportCodeLevelMetrics
       (zeroTraceOptSet\<lparr>LocationOverride :=
           Some \<lparr>LineNo = 7, Function = ''main.run'', FilePath = ''/src/main.go''\<rparr>,
          SuppressCLM := True\<rparr>)
       \<lparr>cfgIgnoredPrefixes = None, cfgIgnoredPrefix = [], cfgPathPrefixes = None,
        cfgPathPrefix = []\<rparr> [] =
     [(AttributeCodeLineno, [], IntValue 7),
      (AttributeCodeNamespace, ''main'', NilInterface),
      (AttributeCodeFilepath, ''/src/main.go'', NilInterface),
      (AttributeCodeFunction, ''run'', NilInterface)]"
  by (simp add: reportCodeLevelMetrics_def resolveLocation_def zeroTraceOptSet_def
      effectivePathPrefixes_def elems_def splitFunction_def HasPrefix_def Let_def)

subsection \<open>Facts about the option loop\<close>

lemma optionsLoop_fold:
  "(\<forall>j<length opts. \<not> SuppressCLM (snd (foldl (\<lambda>st opt. opt st) st (take (Suc j) opts))))
   \<Longrightarrow> optionsLoop opts st = foldl (\<lambda>st opt. opt st) st opts"
proof (induction opts arbitrary: st)
  case Nil
  then show ?case by simp
next
  case (Cons opt opts)
  from Cons.prems have first: "\<not> SuppressCLM (snd (opt st))"
    by (auto dest: spec [of _ 0])
  have "\<forall>j<length opts. \<not> SuppressCLM (snd (foldl (\<lambda>st opt. opt st) (opt st) (take (Suc j) opts)))"
  proof (intro allI impI)
    fix j assume "j < length opts"
    then have "Suc j < length (opt # opts)" by simp
    with Cons.prems have "\<not> SuppressCLM (snd (foldl (\<lambda>st opt. opt st) st (take (Suc (Suc j)) (opt # opts))))"
      by blast
    then show "\<not> SuppressCLM (snd (foldl (\<lambda>st opt. opt st) (opt st) (take (Suc j) opts)))"
      by simp
  qed
  from Cons.IH [OF this] first show ?case by (simp add: Let_def)
qed

lemma optionsLoop_append:
  "optionsLoop (pre @ post) st =
     (if pre \<noteq> [] \<and> SuppressCLM (snd (optionsLoop pre st)) then optionsLoop pre st
      else optionsLoop post (optionsLoop pre st))"
  by (induction pre arbitrary: st) (auto simp: Let_def)

lemma optionsLoop_stop:
  "pre \<noteq> [] \<Longrightarrow> SuppressCLM (snd (optionsLoop pre st)) \<Longrightarrow> optionsLoop (pre @ post) st = optionsLoop pre st"
  by (simp add: optionsLoop_append)

lemma optionsLoop_snoc_Without:
  "SuppressCLM (snd (optionsLoop (pre @ [WithoutCodeLevelMetrics]) st))"
  by (induction pre arbitrary: st) (auto simp: Let_def WithoutCodeLevelMetrics_def split: prod.splits)

lemma zero_not_suppressed: "\<not> SuppressCLM zeroTraceOptSet"
  by (simp add: zeroTraceOptSet_def)

subsection \<open>C4: evaluating a list of options\<close>

text \<open>
  Claim C4. resolveCLMTraceOptions starts from the zero option set and applies the options
  from left to right: when SuppressCLM is false after every option, the result is the
  left fold of the whole list; when it becomes true at an option for the first time, the
  result is the left fold of the list up to and including that option, whatever follows
  it. In particular the options after a WithoutCodeLevelMetrics leave no trace in the
  result, and the result is suppressed.
\<close>

theorem C4_options_fold_until_suppressed:
  "resolveCLMTraceOptions [] h = (h, zeroTraceOptSet)
   \<and> ((\<forall>j<length opts. \<not> SuppressCLM (snd (foldl (\<lambda>st opt. opt st) (h, zeroTraceOptSet) (take (Suc j) opts))))
        \<longrightarrow> resolveCLMTraceOptions opts h = foldl (\<lambda>st opt. opt st) (h, zeroTraceOptSet) opts)
   \<and> ((\<forall>j<length pre. \<not> SuppressCLM (snd (foldl (\<lambda>st opt. opt st) (h, zeroTraceOptSet) (take (Suc j) pre))))
        \<and> SuppressCLM (snd (foldl (\<lambda>st opt. opt st) (h, zeroTraceOptSet) (pre @ [opt])))
        \<longrightarrow> resolveCLMTraceOptions (pre @ opt # post) h = foldl (\<lambda>st opt. opt st) (h, zeroTraceOptSet) (pre @ [opt]))
   \<and> resolveCLMTraceOptions (pre @ WithoutCodeLevelMetrics # post) h
       = resolveCLMTraceOptions (pre @ [WithoutCodeLevelMetrics]) h
   \<and> SuppressCLM (snd (resolveCLMTraceOptions (pre @ WithoutCodeLevelMetrics # post) h))"
proof -
  let ?ap = "\<lambda>st opt. opt st" and ?z = "(h, zeroTraceOptSet)"
  have a: "resolveCLMTraceOptions [] h = ?z" by (simp add: resolveCLMTraceOptions_def)
  have b: "(\<forall>j<length opts. \<not> SuppressCLM (snd (foldl ?ap ?z (take (Suc j) opts))))
        \<longrightarrow> resolveCLMTraceOptions opts h = foldl ?ap ?z opts"
    by (simp add: resolveCLMTraceOptions_def optionsLoop_fold)
  have c: "resolveCLMTraceOptions (pre @ opt # post) h = foldl ?ap ?z (pre @ [opt])"
    if n: "\<forall>j<length pre. \<not> SuppressCLM (snd (foldl ?ap ?z (take (Suc j) pre)))"
    and s: "SuppressCLM (snd (foldl ?ap ?z (pre @ [opt])))" for pre opt post
  proof -
    have "\<forall>j<length (pre @ [opt]). j < length pre \<or> j = length pre" by auto
    have p: "optionsLoop pre ?z = foldl ?ap ?z pre" using n by (rule optionsLoop_fold)
    have np: "\<not> (pre \<noteq> [] \<and> SuppressCLM (snd (optionsLoop pre ?z)))"
    proof (cases "pre = []")
      case True then show ?thesis by simp
    next
      case False
      then have "length pre - 1 < length pre" by simp
      with n have "\<not> SuppressCLM (snd (foldl ?ap ?z (take (Suc (length pre - 1)) pre)))" by blast
      with False p show ?thesis by simp
    qed
    have q: "optionsLoop (pre @ [opt]) ?z = foldl ?ap ?z (pre @ [opt])"
      using np p s by (auto simp: optionsLoop_append [of pre "[opt]"] Let_def)
    have "optionsLoop ((pre @ [opt]) @ post) ?z = optionsLoop (pre @ [opt]) ?z"
      using s q by (intro optionsLoop_stop) simp_all
    with q show ?thesis by (simp add: resolveCLMTraceOptions_def)
  qed
  have d: "resolveCLMTraceOptions (pre @ WithoutCodeLevelMetrics # post) h
       = resolveCLMTraceOptions (pre @ [WithoutCodeLevelMetrics]) h"
    using optionsLoop_stop [of "pre @ [WithoutCodeLevelMetrics]" ?z post] optionsLoop_snoc_Without [of pre ?z]
    by (simp add: resolveCLMTraceOptions_def)
  have e: "SuppressCLM (snd (resolveCLMTraceOptions (pre @ WithoutCodeLevelMetrics # post) h))"
    using d optionsLoop_snoc_Without [of pre ?z] by (simp add: resolveCLMTraceOptions_def)
  show ?thesis using a b c d e by blast
qed

theorem C4_options_fold_until_suppressed_witness:
  "snd (resolveCLMTraceOptions
          ([WithPathPrefix (Some [''src/''])] @ WithoutCodeLevelMetrics #
             [WithCodeLevelMetrics, WithIgnoredPrefix (Some [''vendor/''])])
          (\<lambda>_. zeroCachedCodeLocation)) =
     zeroTraceOptSet\<lparr>SuppressCLM := True, PathPrefixes := Some [''src/'']\<rparr>
   \<and> snd (resolveCLMTraceOptions [WithCodeLevelMetrics] (\<lambda>_. zeroCachedCodeLocation)) =
     zeroTraceOptSet\<lparr>DemandCLM := True\<rparr>"
  using C4_options_fold_until_suppressed [where h = "\<lambda>_. zeroCachedCodeLocation"
      and opts = "[WithCodeLevelMetrics]" and pre = "[WithPathPrefix (Some [''src/''])]"
      and opt = WithoutCodeLevelMetrics
      and post = "[WithCodeLevelMetrics, WithIgnoredPrefix (Some [''vendor/''])]"]
  by (simp add: WithPathPrefix_def WithoutCodeLevelMetrics_def WithCodeLevelMetrics_def
      zeroTraceOptSet_def)

subsection \<open>Facts about FunctionLocation and the once-guard\<close>

lemma FunctionLocation_nil:
  "FunctionLocation rt NilInterface = (None, Some ''nil function passed to FunctionLocation'')"
  by (simp add: FunctionLocation_def)

lemma FunctionLocation_not_func:
  "v \<noteq> NilInterface \<Longrightarrow> reflect_Kind v \<noteq> reflect_Func \<Longrightarrow>
   FunctionLocation rt v = (None, Some ''value passed to FunctionLocation is not a function'')"
  by (simp add: FunctionLocation_def)

lemma FunctionLocation_func:
  "FunctionLocation rt (FuncValue p) =
     (case rt p of
        None \<Rightarrow> (None, Some ''could not find code location for function'')
      | Some fInfo \<Rightarrow> (Some \<lparr>LineNo = fi_Line fInfo, Function = fi_Name fInfo, FilePath = fi_File fInfo\<rparr>, None))"
  by (simp add: FunctionLocation_def reflect_Kind_def reflect_IsValid_def reflect_Pointer_def
      split: option.splits)

lemma once_Do_done: "once c \<Longrightarrow> once_Do c f = c"
  by (simp add: once_Do_def)

lemma Cached_FunctionLocation_done:
  "once c \<Longrightarrow> Cached_FunctionLocation rt c fn = (c, Location c, Err c)"
  by (simp add: Cached_FunctionLocation_def once_Do_done)

lemma Cached_FunctionLocation_first:
  "\<not> once c \<Longrightarrow> Cached_FunctionLocation rt c fn =
     (c\<lparr>Location := fst (FunctionLocation rt fn), Err := snd (FunctionLocation rt fn), once := True\<rparr>,
      fst (FunctionLocation rt fn), snd (FunctionLocation rt fn))"
  by (simp add: Cached_FunctionLocation_def once_Do_def Let_def split: prod.splits)

lemma Cached_ThisCodeLocation_done:
  "once c \<Longrightarrow> Cached_ThisCodeLocation onceFrames stack c sk = (c, Location c)"
  by (simp add: Cached_ThisCodeLocation_def once_Do_done)

lemma Cached_ThisCodeLocation_first:
  "\<not> once c \<Longrightarrow> Cached_ThisCodeLocation onceFrames stack c sk =
     (let loc = ThisCodeLocation
            (frame_Cached_ThisCodeLocation_func1 # onceFrames @ frame_Cached_ThisCodeLocation # stack)
            [wrap64 ((case sk of [] \<Rightarrow> 0 | s # _ \<Rightarrow> s) + 4)]
      in (c\<lparr>Location := Some loc, Err := None, once := True\<rparr>, Some loc))"
  by (simp add: Cached_ThisCodeLocation_def once_Do_def Let_def)

subsection \<open>C6: the errors of FunctionLocation\<close>

text \<open>
  Claim C6, amended. FunctionLocation returns an error and no location for the nil
  interface (\<open>nil function passed to FunctionLocation\<close>) and for every value that is not
  of kind func, such as 42 (\<open>value passed to FunctionLocation is not a function\<close>): the
  two invalid-argument errors. For a func value whose code pointer the symbol table does
  not know it returns the not-found error (\<open>could not find code location for function\<close>);
  a nil func value is such a value when, as in a Go program, no function lies at the code
  pointer 0. Otherwise it returns the line and file of the function's entry and its name,
  and no error. Whenever FunctionLocation returns an error, WithFunctionLocation and
  WithDefaultFunctionLocation leave the store and the option set as they are, and so do
  their cached variants on a receiver whose once-guard has not run; and whenever the
  cached FunctionLocation returns an error, the cached options leave the option set as it
  is.
\<close>

theorem C6_function_location_errors:
  "FunctionLocation rt NilInterface = (None, Some ''nil function passed to FunctionLocation'')
   \<and> (v \<noteq> NilInterface \<and> reflect_Kind v \<noteq> reflect_Func \<longrightarrow>
        FunctionLocation rt v = (None, Some ''value passed to FunctionLocation is not a function''))
   \<and> FunctionLocation rt (IntValue 42) = (None, Some ''value passed to FunctionLocation is not a function'')
   \<and> (rt p = None \<longrightarrow>
        FunctionLocation rt (FuncValue p) = (None, Some ''could not find code location for function''))
   \<and> (rt 0 = None \<longrightarrow>
        FunctionLocation rt (FuncValue 0) = (None, Some ''could not find code location for function''))
   \<and> (rt p = Some fInfo \<longrightarrow>
        FunctionLocation rt (FuncValue p) =
          (Some \<lparr>LineNo = fi_Line fInfo, Function = fi_Name fInfo, FilePath = fi_File fInfo\<rparr>, None))
   \<and> (snd (FunctionLocation rt fn) \<noteq> None \<longrightarrow>
        WithFunctionLocation rt fn (h, os) = (h, os)
        \<and> WithDefaultFunctionLocation rt fn (h, os) = (h, os)
        \<and> (\<not> once (h c) \<longrightarrow>
             snd (Cached_WithFunctionLocation rt c fn (h, os)) = os
             \<and> snd (Cached_WithDefaultFunctionLocation rt c fn (h, os)) = os))
   \<and> (snd (snd (Cached_FunctionLocation rt (h c) fn)) \<noteq> None \<longrightarrow>
        snd (Cached_WithFunctionLocation rt c fn (h, os)) = os
        \<and> snd (Cached_WithDefaultFunctionLocation rt c fn (h, os)) = os)"
proof -
  have cached: "snd (Cached_WithFunctionLocation rt c fn (h, os)) = os
        \<and> snd (Cached_WithDefaultFunctionLocation rt c fn (h, os)) = os"
    if "snd (snd (Cached_FunctionLocation rt (h c) fn)) \<noteq> None" for c
    using that
    by (auto simp: Cached_WithFunctionLocation_def Cached_WithDefaultFunctionLocation_def
        split: prod.splits)
  have fresh: "snd (snd (Cached_FunctionLocation rt (h c) fn)) \<noteq> None"
    if "snd (FunctionLocation rt fn) \<noteq> None" "\<not> once (h c)"
    using that by (simp add: Cached_FunctionLocation_first)
  have plain: "WithFunctionLocation rt fn (h, os) = (h, os)
        \<and> WithDefaultFunctionLocation rt fn (h, os) = (h, os)"
    if "snd (FunctionLocation rt fn) \<noteq> None"
    using that
    by (auto simp: WithFunctionLocation_def WithDefaultFunctionLocation_def split: prod.splits)
  show ?thesis
    using cached fresh plain
    by (simp add: FunctionLocation_nil FunctionLocation_not_func FunctionLocation_func
        reflect_Kind_def)
qed

subsection \<open>C7: the default function location\<close>

text \<open>
  Claim C7. When LocationOverride is already set, WithDefaultFunctionLocation and its
  cached variant change nothing: neither the option set nor the cache receiver. When it
  is not set, they act as WithFunctionLocation and as the cached WithFunctionLocation;
  on a receiver whose once-guard has not run, the cached variant then leaves the option
  set as WithFunctionLocation itself does.
\<close>

theorem C7_default_function_location:
  "(LocationOverride os \<noteq> None \<longrightarrow>
      WithDefaultFunctionLocation rt fn (h, os) = (h, os)
      \<and> Cached_WithDefaultFunctionLocation rt c fn (h, os) = (h, os))
   \<and> (LocationOverride os = None \<longrightarrow>
      WithDefaultFunctionLocation rt fn (h, os) = WithFunctionLocation rt fn (h, os)
      \<and> Cached_WithDefaultFunctionLocation rt c fn (h, os) = Cached_WithFunctionLocation rt c fn (h, os)
      \<and> (\<not> once (h c) \<longrightarrow>
           snd (Cached_WithDefaultFunctionLocation rt c fn (h, os))
             = snd (WithFunctionLocation rt fn (h, os))))"
  by (auto simp: WithDefaultFunctionLocation_def Cached_WithDefaultFunctionLocation_def
      Cached_WithFunctionLocation_def WithCodeLocation_def WithFunctionLocation_def
      Cached_FunctionLocation_first split: prod.splits)

subsection \<open>C10: one once-guard for both methods\<close>

text \<open>
  Claim C10. On a receiver whose once-guard has not run, the first call of the cached
  FunctionLocation stores the result of FunctionLocation for its argument, and the first
  call of the cached ThisCodeLocation stores its location and a nil error; either call
  marks the guard as run. On a receiver whose guard has run, both methods return the
  stored Location (and Err) and leave the receiver as it is, whatever their arguments: a
  later call of the other method, or of the same method with another function, returns
  the first stored result.
\<close>

theorem C10_single_once_guard:
  "(\<not> once c \<longrightarrow>
      (case Cached_FunctionLocation rt c fn1 of
         (c1, loc1, err1) \<Rightarrow>
           (loc1, err1) = FunctionLocation rt fn1
           \<and> once c1 \<and> Location c1 = loc1 \<and> Err c1 = err1
           \<and> Cached_FunctionLocation rt c1 fn2 = (c1, loc1, err1)
           \<and> Cached_ThisCodeLocation onceFrames stack c1 sk = (c1, loc1)))
   \<and> (\<not> once c \<longrightarrow>
      (case Cached_ThisCodeLocation onceFrames stack c sk of
         (c1, loc1) \<Rightarrow>
           once c1 \<and> Location c1 = loc1 \<and> Err c1 = None
           \<and> Cached_FunctionLocation rt c1 fn2 = (c1, loc1, None)
           \<and> Cached_ThisCodeLocation onceFrames' stack' c1 sk' = (c1, loc1)))
   \<and> (once c \<longrightarrow>
      Cached_FunctionLocation rt c fn2 = (c, Location c, Err c)
      \<and> Cached_ThisCodeLocation onceFrames stack c sk = (c, Location c))"
  by (auto simp: Cached_FunctionLocation_first Cached_FunctionLocation_done
      Cached_ThisCodeLocation_first Cached_ThisCodeLocation_done Let_def)


theorem C6_function_location_errors_witness:
  "FunctionLocation (\<lambda>p. if p = 4096 then Some \<lparr>fi_Name = ''main.handler'', fi_File = ''/app/main.go'', fi_Line = 12\<rparr> else None)
      (FuncValue 0) = (None, Some ''could not find code location for function'')
   \<and> FunctionLocation (\<lambda>p. if p = 4096 then Some \<lparr>fi_Name = ''main.handler'', fi_File = ''/app/main.go'', fi_Line = 12\<rparr> else None)
      (FuncValue 4096) = (Some \<lparr>LineNo = 12, Function = ''main.handler'', FilePath = ''/app/main.go''\<rparr>, None)
   \<and> FunctionLocation (\<lambda>p. if p = 4096 then Some \<lparr>fi_Name = ''main.handler'', fi_File = ''/app/main.go'', fi_Line = 12\<rparr> else None)
      (StringValue ''handler'') = (None, Some ''value passed to FunctionLocation is not a function'')
   \<and> WithFunctionLocation (\<lambda>p. if p = 4096 then Some \<lparr>fi_Name = ''main.handler'', fi_File = ''/app/main.go'', fi_Line = 12\<rparr> else None)
        (StringValue ''handler'')
        (\<lambda>_. zeroCachedCodeLocation,
         zeroTraceOptSet\<lparr>LocationOverride := Some \<lparr>LineNo = 3, Function = ''main.main'', FilePath = ''/app/main.go''\<rparr>\<rparr>)
      = (\<lambda>_. zeroCachedCodeLocation,
         zeroTraceOptSet\<lparr>LocationOverride := Some \<lparr>LineNo = 3, Function = ''main.main'', FilePath = ''/app/main.go''\<rparr>\<rparr>)
   \<and> snd (Cached_WithFunctionLocation (\<lambda>p. if p = 4096 then Some \<lparr>fi_Name = ''main.handler'', fi_File = ''/app/main.go'', fi_Line = 12\<rparr> else None)
        0 (StringValue ''handler'')
        (\<lambda>_. zeroCachedCodeLocation,
         zeroTraceOptSet\<lparr>LocationOverride := Some \<lparr>LineNo = 3, Function = ''main.main'', FilePath = ''/app/main.go''\<rparr>\<rparr>))
      = zeroTraceOptSet\<lparr>LocationOverride := Some \<lparr>LineNo = 3, Function = ''main.main'', FilePath = ''/app/main.go''\<rparr>\<rparr>"
  using C6_function_location_errors [where rt = "\<lambda>p. if p = 4096 then Some \<lparr>fi_Name = ''main.handler'', fi_File = ''/app/main.go'', fi_Line = 12\<rparr> else None"
      and v = "StringValue ''handler''" and p = 0 and fn = "StringValue ''handler''"
      and h = "\<lambda>_. zeroCachedCodeLocation" and c = 0
      and os = "zeroTraceOptSet\<lparr>LocationOverride := Some \<lparr>LineNo = 3, Function = ''main.main'', FilePath = ''/app/main.go''\<rparr>\<rparr>"]
    C6_function_location_errors [where rt = "\<lambda>p. if p = 4096 then Some \<lparr>fi_Name = ''main.handler'', fi_File = ''/app/main.go'', fi_Line = 12\<rparr> else None"
      and p = 4096 and fInfo = "\<lparr>fi_Name = ''main.handler'', fi_File = ''/app/main.go'', fi_Line = 12\<rparr>"]
  by (simp add: reflect_Kind_def zeroCachedCodeLocation_def)

text \<open>
  Claim C6 as stated fails for a nil func value: it is not the nil interface, its kind is
  func, and with no function at the code pointer 0 it gets the not-found error, not the
  error for a nil function.
\<close>

theorem C6_nil_func_counterexample:
  "FuncValue 0 \<noteq> NilInterface
   \<and> reflect_Kind (FuncValue 0) = reflect_Func
   \<and> reflect_Pointer (FuncValue 0) = 0
   \<and> FunctionLocation (\<lambda>p. if p = 4096 then Some \<lparr>fi_Name = ''main.handler'', fi_File = ''/app/main.go'', fi_Line = 12\<rparr> else None)
        (FuncValue 0) = (None, Some ''could not find code location for function'')
   \<and> FunctionLocation (\<lambda>p. if p = 4096 then Some \<lparr>fi_Name = ''main.handler'', fi_File = ''/app/main.go'', fi_Line = 12\<rparr> else None)
        (FuncValue 0) \<noteq> (None, Some ''nil function passed to FunctionLocation'')"
  by (simp add: FunctionLocation_func reflect_Kind_def reflect_Pointer_def)

theorem C7_default_function_location_witness:
  "WithDefaultFunctionLocation (\<lambda>p. if p = 4096 then Some \<lparr>fi_Name = ''main.handler'', fi_File = ''/app/main.go'', fi_Line = 12\<rparr> else None)
        (FuncValue 4096)
        (\<lambda>_. zeroCachedCodeLocation,
         zeroTraceOptSet\<lparr>LocationOverride := Some \<lparr>LineNo = 3, Function = ''main.main'', FilePath = ''/app/main.go''\<rparr>\<rparr>)
      = (\<lambda>_. zeroCachedCodeLocation,
         zeroTraceOptSet\<lparr>LocationOverride := Some \<lparr>LineNo = 3, Function = ''main.main'', FilePath = ''/app/main.go''\<rparr>\<rparr>)
   \<and> Cached_WithDefaultFunctionLocation (\<lambda>p. if p = 4096 then Some \<lparr>fi_Name = ''main.handler'', fi_File = ''/app/main.go'', fi_Line = 12\<rparr> else None)
        0 (FuncValue 4096)
        (\<lambda>_. zeroCachedCodeLocation,
         zeroTraceOptSet\<lparr>LocationOverride := Some \<lparr>LineNo = 3, Function = ''main.main'', FilePath = ''/app/main.go''\<rparr>\<rparr>)
      = (\<lambda>_. zeroCachedCodeLocation,
         zeroTraceOptSet\<lparr>LocationOverride := Some \<lparr>LineNo = 3, Function = ''main.main'', FilePath = ''/app/main.go''\<rparr>\<rparr>)
   \<and> snd (WithDefaultFunctionLocation (\<lambda>p. if p = 4096 then Some \<lparr>fi_Name = ''main.handler'', fi_File = ''/app/main.go'', fi_Line = 12\<rparr> else None)
        (FuncValue 4096) (\<lambda>_. zeroCachedCodeLocation, zeroTraceOptSet))
      = zeroTraceOptSet\<lparr>LocationOverride := Some \<lparr>LineNo = 12, Function = ''main.handler'', FilePath = ''/app/main.go''\<rparr>\<rparr>"
  using C7_default_function_location [where rt = "\<lambda>p. if p = 4096 then Some \<lparr>fi_Name = ''main.handler'', fi_File = ''/app/main.go'', fi_Line = 12\<rparr> else None"
      and fn = "FuncValue 4096" and h = "\<lambda>_. zeroCachedCodeLocation" and c = 0
      and os = "zeroTraceOptSet\<lparr>LocationOverride := Some \<lparr>LineNo = 3, Function = ''main.main'', FilePath = ''/app/main.go''\<rparr>\<rparr>"]
    C7_default_function_location [where rt = "\<lambda>p. if p = 4096 then Some \<lparr>fi_Name = ''main.handler'', fi_File = ''/app/main.go'', fi_Line = 12\<rparr> else None"
      and fn = "FuncValue 4096" and h = "\<lambda>_. zeroCachedCodeLocation" and c = 0
      and os = zeroTraceOptSet]
  by (simp add: zeroTraceOptSet_def WithFunctionLocation_def FunctionLocation_func)

theorem C10_single_once_guard_witness:
  "Cached_FunctionLocation (\<lambda>p. if p = 4096 then Some \<lparr>fi_Name = ''main.handler'', fi_File = ''/app/main.go'', fi_Line = 12\<rparr> else None)
      (fst (Cached_FunctionLocation (\<lambda>p. if p = 4096 then Some \<lparr>fi_Name = ''main.handler'', fi_File = ''/app/main.go'', fi_Line = 12\<rparr> else None)
          zeroCachedCodeLocation (IntValue 42)))
      (FuncValue 4096)
     = (\<lparr>Location = None, Err = Some ''value passed to FunctionLocation is not a function'', once = True\<rparr>,
        None, Some ''value passed to FunctionLocation is not a function'')
   \<and> Cached_ThisCodeLocation syncOnceFrames
        [\<lparr>frame_Function = ''main.main'', frame_File = ''/app/main.go'', frame_Line = 3\<rparr>]
        (fst (Cached_FunctionLocation (\<lambda>p. if p = 4096 then Some \<lparr>fi_Name = ''main.handler'', fi_File = ''/app/main.go'', fi_Line = 12\<rparr> else None)
          zeroCachedCodeLocation (IntValue 42))) []
     = (\<lparr>Location = None, Err = Some ''value passed to FunctionLocation is not a function'', once = True\<rparr>,
        None)
   \<and> Cached_FunctionLocation (\<lambda>p. None)
        \<lparr>Location = Some \<lparr>LineNo = 3, Function = ''main.main'', FilePath = ''/app/main.go''\<rparr>,
         Err = None, once = True\<rparr> (IntValue 42)
     = (\<lparr>Location = Some \<lparr>LineNo = 3, Function = ''main.main'', FilePath = ''/app/main.go''\<rparr>,
         Err = None, once = True\<rparr>,
        Some \<lparr>LineNo = 3, Function = ''main.main'', FilePath = ''/app/main.go''\<rparr>, None)"
  using C10_single_once_guard [where rt = "\<lambda>p. None" and ?fn2.0 = "IntValue 42"
      and c = "\<lparr>Location = Some \<lparr>LineNo = 3, Function = ''main.main'', FilePath = ''/app/main.go''\<rparr>,
         Err = None, once = True\<rparr>"]
    C10_single_once_guard [where rt = "\<lambda>p. if p = 4096 then Some \<lparr>fi_Name = ''main.handler'', fi_File = ''/app/main.go'', fi_Line = 12\<rparr> else None"
      and c = zeroCachedCodeLocation and ?fn1.0 = "IntValue 42" and ?fn2.0 = "FuncValue 4096"
      and onceFrames = syncOnceFrames and sk = "[]"
      and stack = "[\<lparr>frame_Function = ''main.main'', frame_File = ''/app/main.go'', frame_Line = 3\<rparr>]"]
  by (simp add: zeroCachedCodeLocation_def Cached_FunctionLocation_first FunctionLocation_not_func
      reflect_Kind_def split: prod.splits)

subsection \<open>Facts about Index and the trimming loop\<close>

lemma HasPrefix_iff: "HasPrefix s p = (\<exists>t. s = p @ t)"
proof
  assume "HasPrefix s p"
  then have "s = p @ drop (length p) s"
    by (metis HasPrefix_def append_take_drop_id)
  then show "\<exists>t. s = p @ t" ..
next
  assume "\<exists>t. s = p @ t"
  then show "HasPrefix s p" by (auto simp: HasPrefix_def)
qed

lemma occurs_Cons:
  "(\<exists>a b. c # cs = a @ sub @ b) = (HasPrefix (c # cs) sub \<or> (\<exists>a b. cs = a @ sub @ b))"
proof
  assume "\<exists>a b. c # cs = a @ sub @ b"
  then obtain a b where ab: "c # cs = a @ sub @ b" by blast
  show "HasPrefix (c # cs) sub \<or> (\<exists>a b. cs = a @ sub @ b)"
  proof (cases a)
    case Nil
    with ab show ?thesis by (auto simp: HasPrefix_iff)
  next
    case (Cons x a')
    with ab have "cs = a' @ sub @ b" by simp
    then show ?thesis by blast
  qed
next
  assume "HasPrefix (c # cs) sub \<or> (\<exists>a b. cs = a @ sub @ b)"
  then show "\<exists>a b. c # cs = a @ sub @ b"
  proof
    assume "HasPrefix (c # cs) sub"
    then obtain t where "c # cs = [] @ sub @ t" by (auto simp: HasPrefix_iff)
    then show ?thesis by blast
  next
    assume "\<exists>a b. cs = a @ sub @ b"
    then obtain a b where "cs = a @ sub @ b" by blast
    then have "c # cs = (c # a) @ sub @ b" by simp
    then show ?thesis by blast
  qed
qed

lemma Index_neg_iff: "(Index s sub < 0) = (\<not> (\<exists>a b. s = a @ sub @ b))"
proof (induction s)
  case Nil
  then show ?case by auto
next
  case (Cons c cs)
  show ?case
    unfolding occurs_Cons using Cons.IH by (auto simp: Let_def)
qed

lemma Index_first:
  "s = a @ sub @ b \<Longrightarrow> (\<forall>a' b'. s = a' @ sub @ b' \<longrightarrow> length a \<le> length a')
   \<Longrightarrow> Index s sub = int (length a)"
proof (induction s arbitrary: a)
  case Nil
  then show ?case by simp
next
  case (Cons c cs)
  show ?case
  proof (cases "HasPrefix (c # cs) sub")
    case True
    then obtain t where "c # cs = [] @ sub @ t" by (auto simp: HasPrefix_iff)
    with Cons.prems(2) have "length a \<le> length ([]::string)" by blast
    with True show ?thesis by simp
  next
    case False
    have "a \<noteq> []"
    proof
      assume "a = []"
      with Cons.prems(1) have "HasPrefix (c # cs) sub" by (auto simp: HasPrefix_iff)
      with False show False by simp
    qed
    then obtain a1 where a: "a = c # a1" using Cons.prems(1) by (cases a) auto
    with Cons.prems(1) have cs: "cs = a1 @ sub @ b" by simp
    have "\<forall>a' b'. cs = a' @ sub @ b' \<longrightarrow> length a1 \<le> length a'"
    proof (intro allI impI)
      fix a' b' assume "cs = a' @ sub @ b'"
      then have "c # cs = (c # a') @ sub @ b'" by simp
      with Cons.prems(2) have "length a \<le> length (c # a')" by blast
      with a show "length a1 \<le> length a'" by simp
    qed
    from Cons.IH [OF cs this] False a show ?thesis by (simp add: Let_def)
  qed
qed

lemma trimFilePath_none:
  "(\<forall>p\<in>set ps. \<not> (\<exists>a b. path = a @ p @ b)) \<Longrightarrow> trimFilePath ps path = path"
proof (induction ps)
  case Nil
  then show ?case by simp
next
  case (Cons p ps)
  then have "Index path p < 0" by (simp add: Index_neg_iff)
  with Cons show ?case by (simp add: Let_def)
qed

lemma trimFilePath_hit:
  assumes "path = a @ p @ b" and "\<forall>a' b'. path = a' @ p @ b' \<longrightarrow> length a \<le> length a'"
  shows "trimFilePath (p # post) path = p @ b"
proof -
  have "Index path p = int (length a)" using assms by (rule Index_first)
  with assms(1) show ?thesis by (simp add: Let_def)
qed

lemma trimFilePath_first:
  assumes "\<forall>q\<in>set pre. \<not> (\<exists>a b. path = a @ q @ b)"
    and "path = a @ p @ b" and "\<forall>a' b'. path = a' @ p @ b' \<longrightarrow> length a \<le> length a'"
  shows "trimFilePath (pre @ p # post) path = p @ b"
  using assms(1)
proof (induction pre)
  case Nil
  show ?case using assms(2,3) by (simp only: append_Nil trimFilePath_hit)
next
  case (Cons q pre)
  then have "Index path q < 0" by (simp add: Index_neg_iff)
  with Cons show ?case by (simp add: Let_def)
qed

lemma Index_le: "s = a @ sub @ b \<Longrightarrow> Index s sub \<le> int (length a)"
proof (induction s arbitrary: a)
  case Nil
  then show ?case by simp
next
  case (Cons c cs)
  show ?case
  proof (cases "HasPrefix (c # cs) sub")
    case True
    then show ?thesis by simp
  next
    case False
    have "a \<noteq> []"
    proof
      assume "a = []"
      with Cons.prems have "HasPrefix (c # cs) sub" by (auto simp: HasPrefix_iff)
      with False show False by simp
    qed
    then obtain a1 where a: "a = c # a1" using Cons.prems by (cases a) auto
    with Cons.prems have cs: "cs = a1 @ sub @ b" by simp
    then have "\<not> Index cs sub < 0" unfolding Index_neg_iff by blast
    with Cons.IH [OF cs] False a show ?thesis by (simp add: Let_def)
  qed
qed

subsection \<open>C8: trimming the file path\<close>

text \<open>
  Claim C8. The trimming loop of reportCodeLevelMetrics goes through the path prefixes in
  order. When no prefix occurs in the file path, the path stays as it is. When \<open>p\<close> is
  the first prefix of the list that occurs in the path, and \<open>a\<close> is what precedes the
  first occurrence of \<open>p\<close> in the path, the result is the path without \<open>a\<close>: it begins
  at that occurrence, and the prefixes after \<open>p\<close> in the list play no part. The third
  call of the attribute sink carries the trimmed path. The path
  \<open>/home/user/project/src/pkg/file.go\<close> with the list \<open>[pkg/]\<close> gives \<open>pkg/file.go\<close>.
\<close>

theorem C8_path_prefix_trim:
  "((\<forall>p\<in>set ps. \<not> (\<exists>a b. path = a @ p @ b)) \<longrightarrow> trimFilePath ps path = path)
   \<and> ((\<forall>q\<in>set pre. \<not> (\<exists>a b. path = a @ q @ b)) \<and> path = a @ p @ b
        \<and> (\<forall>a' b'. path = a' @ p @ b' \<longrightarrow> length a \<le> length a')
      \<longrightarrow> trimFilePath (pre @ p # post) path = p @ b)
   \<and> trimFilePath [''pkg/''] ''/home/user/project/src/pkg/file.go'' = ''pkg/file.go''
   \<and> reportCodeLevelMetrics tOpts cfg stack ! 2 =
       (AttributeCodeFilepath,
        trimFilePath (elems (effectivePathPrefixes tOpts cfg))
          (FilePath (resolveLocation tOpts cfg stack)), NilInterface)"
proof -
  have ex: "trimFilePath [''pkg/''] ''/home/user/project/src/pkg/file.go'' = ''pkg/file.go''"
    by (simp add: HasPrefix_def Let_def)
  have call: "reportCodeLevelMetrics tOpts cfg stack ! 2 =
       (AttributeCodeFilepath,
        trimFilePath (elems (effectivePathPrefixes tOpts cfg))
          (FilePath (resolveLocation tOpts cfg stack)), NilInterface)"
    by (simp add: reportCodeLevelMetrics_calls)
  show ?thesis
    using trimFilePath_none [of ps path] trimFilePath_first [of pre path a p b post] ex call
    by blast
qed

theorem C8_path_prefix_trim_witness:
  "trimFilePath ([''lib/''] @ ''pkg/'' # [''src/'']) ''/app/src/pkg/f.go'' = ''pkg/f.go''
   \<and> trimFilePath [''lib/'', ''vendor/''] ''/app/src/pkg/f.go'' = ''/app/src/pkg/f.go''"
proof -
  let ?path = "''/app/src/pkg/f.go''"
  note inst = C8_path_prefix_trim [where ps = "[''lib/'', ''vendor/'']" and path = ?path and pre = "[''lib/'']"
        and p = "''pkg/''" and a = "''/app/src/''" and b = "''f.go''" and post = "[''src/'']"]
  have "Index ?path ''lib/'' < 0" by (simp add: HasPrefix_def Let_def)
  then have lib: "\<not> (\<exists>a b. ?path = a @ ''lib/'' @ b)" unfolding Index_neg_iff .
  have "Index ?path ''vendor/'' < 0" by (simp add: HasPrefix_def Let_def)
  then have vendor: "\<not> (\<exists>a b. ?path = a @ ''vendor/'' @ b)" unfolding Index_neg_iff .
  have n1: "\<forall>q\<in>set [''lib/'']. \<not> (\<exists>a b. ?path = a @ q @ b)"
  proof
    fix q :: string assume "q \<in> set [''lib/'']"
    then have q: "q = ''lib/''" by simp
    show "\<not> (\<exists>a b. ?path = a @ q @ b)" unfolding q by (rule lib)
  qed
  have n2: "\<forall>q\<in>set [''lib/'', ''vendor/'']. \<not> (\<exists>a b. ?path = a @ q @ b)"
  proof
    fix q :: string assume "q \<in> set [''lib/'', ''vendor/'']"
    then consider (l) "q = ''lib/''" | (v) "q = ''vendor/''" by auto
    then show "\<not> (\<exists>a b. ?path = a @ q @ b)"
    proof cases
      case l show ?thesis unfolding l by (rule lib)
    next
      case v show ?thesis unfolding v by (rule vendor)
    qed
  qed
  have split: "?path = ''/app/src/'' @ ''pkg/'' @ ''f.go''" by simp
  have ix: "Index ?path ''pkg/'' = 9" by (simp add: HasPrefix_def Let_def)
  have first: "\<forall>a' b'. ?path = a' @ ''pkg/'' @ b' \<longrightarrow> length ''/app/src/'' \<le> length a'"
  proof (intro allI impI)
    fix a' b' assume "?path = a' @ ''pkg/'' @ b'"
    then have "Index ?path ''pkg/'' \<le> int (length a')" by (rule Index_le)
    with ix show "length ''/app/src/'' \<le> length a'" by simp
  qed
  have hit: "trimFilePath ([''lib/''] @ ''pkg/'' # [''src/'']) ?path = ''pkg/'' @ ''f.go''"
    by (rule mp [OF inst [THEN conjunct2, THEN conjunct1]]) (intro conjI n1 split first)
  have miss: "trimFilePath [''lib/'', ''vendor/''] ?path = ?path"
    by (rule mp [OF inst [THEN conjunct1] n2])
  from hit miss show ?thesis by simp
qed

subsection \<open>Facts about the stack walk\<close>

lemma notIgnored_iff:
  "notIgnored ign f = (\<forall>p\<in>set ign. \<not> HasPrefix (frame_Function f) p)"
  by (induction ign) auto

lemma skipAgentFrames_find:
  "frames \<noteq> [] \<Longrightarrow>
   skipAgentFrames ign fr True frames =
     (case find (notIgnored ign) frames of Some f \<Rightarrow> f | None \<Rightarrow> last frames)"
proof (induction frames arbitrary: fr)
  case Nil
  then show ?case by simp
next
  case (Cons f rest)
  show ?case
  proof (cases "notIgnored ign f")
    case True
    then show ?thesis
      by (subst skipAgentFrames.simps) (simp add: Frames_Next_def)
  next
    case False
    show ?thesis
    proof (cases "rest = []")
      case True
      have "skipAgentFrames ign fr True [f] = skipAgentFrames ign f False []"
        using False by (subst skipAgentFrames.simps) (simp add: Frames_Next_def)
      also have "\<dots> = f" by (subst skipAgentFrames.simps) simp
      finally show ?thesis using True False by simp
    next
      case nonempty: False
      have "skipAgentFrames ign fr True (f # rest) = skipAgentFrames ign f True rest"
        using False nonempty by (subst skipAgentFrames.simps) (simp add: Frames_Next_def)
      with Cons.IH [OF nonempty, of f] False nonempty show ?thesis
        by (simp split: option.splits)
    qed
  qed
qed

lemma find_first_index:
  "i < length xs \<Longrightarrow> (\<forall>j<i. \<not> P (xs ! j)) \<Longrightarrow> P (xs ! i) \<Longrightarrow> find P xs = Some (xs ! i)"
proof (induction xs arbitrary: i)
  case Nil
  then show ?case by simp
next
  case (Cons x xs)
  show ?case
  proof (cases i)
    case 0
    with Cons.prems show ?thesis by simp
  next
    case (Suc k)
    with Cons.prems have "\<not> P x" by auto
    moreover have "find P xs = Some (xs ! k)"
    proof (rule Cons.IH)
      show "k < length xs" using Cons.prems(1) Suc by simp
      show "\<forall>j<k. \<not> P (xs ! j)" using Cons.prems(2) Suc by auto
      show "P (xs ! k)" using Cons.prems(3) Suc by simp
    qed
    ultimately show ?thesis using Suc by simp
  qed
qed

lemma Callers_report:
  "runtime_Callers 2 10 (frame_runtime_Callers # frame_reportCodeLevelMetrics # stack) = take 10 stack"
  by (simp add: runtime_Callers_def)

lemma resolveLocation_walk:
  "LocationOverride tOpts = None \<Longrightarrow> stack \<noteq> [] \<Longrightarrow>
   resolveLocation tOpts cfg stack =
     (let frame = (case find (notIgnored (elems (effectiveIgnoredPrefixes tOpts cfg))) (take 10 stack) of
                     Some f \<Rightarrow> f | None \<Rightarrow> last (take 10 stack))
      in \<lparr>LineNo = frame_Line frame, Function = frame_Function frame, FilePath = frame_File frame\<rparr>)"
  unfolding resolveLocation_def Callers_report
  by (simp add: skipAgentFrames_find Let_def)

subsection \<open>What the stack walk computes\<close>

text \<open>
  Without an explicit location, reportCodeLevelMetrics reads at most the ten innermost
  frames of the stack of its caller, the number its buffer of program counters holds.
  Among these frames it reports the first one whose function name starts with none of
  the ignored prefixes; when the name of every frame read starts with an ignored prefix,
  it reports the last frame read.
\<close>

lemma stack_walk_first_ten:
  assumes "LocationOverride tOpts = None" and "stack \<noteq> []"
    and "frames = take 10 stack" and "ign = elems (effectiveIgnoredPrefixes tOpts cfg)"
  shows "(\<forall>i<length frames.
            (\<forall>j<i. \<exists>p\<in>set ign. HasPrefix (frame_Function (frames ! j)) p)
            \<and> (\<forall>p\<in>set ign. \<not> HasPrefix (frame_Function (frames ! i)) p)
          \<longrightarrow> resolveLocation tOpts cfg stack =
                \<lparr>LineNo = frame_Line (frames ! i), Function = frame_Function (frames ! i),
                 FilePath = frame_File (frames ! i)\<rparr>)
       \<and> ((\<forall>f\<in>set frames. \<exists>p\<in>set ign. HasPrefix (frame_Function f) p)
          \<longrightarrow> resolveLocation tOpts cfg stack =
                \<lparr>LineNo = frame_Line (last frames), Function = frame_Function (last frames),
                 FilePath = frame_File (last frames)\<rparr>)"
proof (intro conjI allI impI)
  fix i
  assume i: "i < length frames"
    and h: "(\<forall>j<i. \<exists>p\<in>set ign. HasPrefix (frame_Function (frames ! j)) p)
            \<and> (\<forall>p\<in>set ign. \<not> HasPrefix (frame_Function (frames ! i)) p)"
  have "find (notIgnored ign) frames = Some (frames ! i)"
    using i h by (intro find_first_index) (auto simp: notIgnored_iff)
  then show "resolveLocation tOpts cfg stack =
                \<lparr>LineNo = frame_Line (frames ! i), Function = frame_Function (frames ! i),
                 FilePath = frame_File (frames ! i)\<rparr>"
    using assms by (simp add: resolveLocation_walk Let_def)
next
  assume "\<forall>f\<in>set frames. \<exists>p\<in>set ign. HasPrefix (frame_Function f) p"
  then have "find (notIgnored ign) frames = None"
    by (auto simp: find_None_iff notIgnored_iff)
  then show "resolveLocation tOpts cfg stack =
                \<lparr>LineNo = frame_Line (last frames), Function = frame_Function (last frames),
                 FilePath = frame_File (last frames)\<rparr>"
    using assms by (simp add: resolveLocation_walk Let_def)
qed


lemma stack_walk_first_ten_example:
  "resolveLocation (zeroTraceOptSet\<lparr>IgnoredPrefixes := Some [''agent-prefix'']\<rparr>)
      \<lparr>cfgIgnoredPrefixes = None, cfgIgnoredPrefix = [], cfgPathPrefixes = None, cfgPathPrefix = []\<rparr>
      [\<lparr>frame_Function = ''agent-prefix/internal.B'', frame_File = ''/agent/b.go'', frame_Line = 20\<rparr>,
       \<lparr>frame_Function = ''app/main.A'', frame_File = ''/app/a.go'', frame_Line = 10\<rparr>,
       \<lparr>frame_Function = ''agent-prefix/internal.C'', frame_File = ''/agent/c.go'', frame_Line = 30\<rparr>]
     = \<lparr>LineNo = 10, Function = ''app/main.A'', FilePath = ''/app/a.go''\<rparr>
   \<and> resolveLocation (zeroTraceOptSet\<lparr>IgnoredPrefixes := Some [''agent-prefix'']\<rparr>)
      \<lparr>cfgIgnoredPrefixes = None, cfgIgnoredPrefix = [], cfgPathPrefixes = None, cfgPathPrefix = []\<rparr>
      [\<lparr>frame_Function = ''agent-prefix/internal.B'', frame_File = ''/agent/b.go'', frame_Line = 20\<rparr>,
       \<lparr>frame_Function = ''agent-prefix/internal.C'', frame_File = ''/agent/c.go'', frame_Line = 30\<rparr>]
     = \<lparr>LineNo = 30, Function = ''agent-prefix/internal.C'', FilePath = ''/agent/c.go''\<rparr>"
proof -
  let ?t = "zeroTraceOptSet\<lparr>IgnoredPrefixes := Some [''agent-prefix'']\<rparr>"
  let ?cfg = "\<lparr>cfgIgnoredPrefixes = None, cfgIgnoredPrefix = [], cfgPathPrefixes = None, cfgPathPrefix = []\<rparr>"
  let ?A = "\<lparr>frame_Function = ''app/main.A'', frame_File = ''/app/a.go'', frame_Line = 10\<rparr>"
  let ?B = "\<lparr>frame_Function = ''agent-prefix/internal.B'', frame_File = ''/agent/b.go'', frame_Line = 20\<rparr>"
  let ?C = "\<lparr>frame_Function = ''agent-prefix/internal.C'', frame_File = ''/agent/c.go'', frame_Line = 30\<rparr>"
  have none: "LocationOverride ?t = None" by (simp add: zeroTraceOptSet_def)
  have ign: "elems (effectiveIgnoredPrefixes ?t ?cfg) = [''agent-prefix'']"
    by (simp add: effectiveIgnoredPrefixes_def elems_def zeroTraceOptSet_def)
  have first: "resolveLocation ?t ?cfg [?B, ?A, ?C] =
      \<lparr>LineNo = frame_Line ([?B, ?A, ?C] ! 1), Function = frame_Function ([?B, ?A, ?C] ! 1),
       FilePath = frame_File ([?B, ?A, ?C] ! 1)\<rparr>"
    using stack_walk_first_ten [where tOpts = ?t and cfg = ?cfg and stack = "[?B, ?A, ?C]"
        and frames = "[?B, ?A, ?C]" and ign = "[''agent-prefix'']", THEN conjunct1,
        rule_format, of 1] none ign
    by (simp add: HasPrefix_def)
  have all: "resolveLocation ?t ?cfg [?B, ?C] =
      \<lparr>LineNo = frame_Line (last [?B, ?C]), Function = frame_Function (last [?B, ?C]),
       FilePath = frame_File (last [?B, ?C])\<rparr>"
    using stack_walk_first_ten [where tOpts = ?t and cfg = ?cfg and stack = "[?B, ?C]"
        and frames = "[?B, ?C]" and ign = "[''agent-prefix'']", THEN conjunct2] none ign
    by (simp add: HasPrefix_def)
  from first all show ?thesis by simp
qed

subsection \<open>C1: the stack walk on a deep stack\<close>

text \<open>
  Claim C1. The walk is to report the first frame of the call stack whose function name
  starts with none of the ignored prefixes, and the outermost frame only when every
  frame's name starts with one; the documentation of WithIgnoredPrefix and the comment
  above the loop say the same. The code does not do so on a stack of eleven frames: ten
  frames of the agent and, outermost, a frame of the application, with the default
  ignore list, which holds the agent's project root. The first frame whose name does not
  start with it is the eleventh, but the buffer of ten program counters ends the walk
  before it, and the code reports the tenth frame, a frame of the agent.
\<close>

theorem C1_deep_stack_reports_agent_frame:
  "resolveLocation zeroTraceOptSet
      \<lparr>cfgIgnoredPrefixes = None, cfgIgnoredPrefix = [], cfgPathPrefixes = None, cfgPathPrefix = []\<rparr>
      (map (\<lambda>n. \<lparr>frame_Function = ''github.com/newrelic/go-agent/v3/newrelic.wrap'',
                  frame_File = ''/agent/wrap.go'', frame_Line = n\<rparr>) [1, 2, 3, 4, 5, 6, 7, 8, 9, 10]
       @ [\<lparr>frame_Function = ''main.handler'', frame_File = ''/app/main.go'', frame_Line = 42\<rparr>])
     = \<lparr>LineNo = 10, Function = ''github.com/newrelic/go-agent/v3/newrelic.wrap'',
        FilePath = ''/agent/wrap.go''\<rparr>
   \<and> effectiveIgnoredPrefixes zeroTraceOptSet
        \<lparr>cfgIgnoredPrefixes = None, cfgIgnoredPrefix = [], cfgPathPrefixes = None, cfgPathPrefix = []\<rparr>
     = Some [''github.com/newrelic/go-agent/'']
   \<and> HasPrefix ''github.com/newrelic/go-agent/v3/newrelic.wrap'' ''github.com/newrelic/go-agent/''
   \<and> \<not> HasPrefix ''main.handler'' ''github.com/newrelic/go-agent/''"
proof -
  let ?cfg = "\<lparr>cfgIgnoredPrefixes = None, cfgIgnoredPrefix = [], cfgPathPrefixes = None, cfgPathPrefix = []\<rparr>"
  have ign: "effectiveIgnoredPrefixes zeroTraceOptSet ?cfg = Some [''github.com/newrelic/go-agent/'']"
    by (simp add: effectiveIgnoredPrefixes_def zeroTraceOptSet_def append_slice_def elems_def
        defaultAgentProjectRoot_def)
  have none: "LocationOverride zeroTraceOptSet = None" by (simp add: zeroTraceOptSet_def)
  show ?thesis
    by (simp add: resolveLocation_walk [OF none] ign elems_def HasPrefix_def Let_def)
qed

subsection \<open>Facts about ThisCodeLocation\<close>

lemma wrap64_id: "- (2 ^ 63) \<le> x \<Longrightarrow> x < 2 ^ 63 \<Longrightarrow> wrap64 x = x"
  by (simp add: wrap64_def signed_take_bit_int_eq_self)

lemma ThisCodeLocation_frames:
  "ThisCodeLocation stack skipLevels =
     (case runtime_Callers (case skipLevels of [] \<Rightarrow> 2 | s # _ \<Rightarrow> wrap64 (2 + s)) 10
             (frame_runtime_Callers # frame_ThisCodeLocation # stack) of
        [] \<Rightarrow> zeroCodeLocation
      | frame # _ \<Rightarrow> \<lparr>LineNo = frame_Line frame, Function = frame_Function frame,
                       FilePath = frame_File frame\<rparr>)"
  by (simp add: ThisCodeLocation_def Let_def Frames_Next_def split: list.splits)

lemma Callers_skip2:
  "0 \<le> k \<Longrightarrow> runtime_Callers (2 + k) 10 (f0 # f1 # stack) = take 10 (drop (nat k) stack)"
  by (simp add: runtime_Callers_def nat_add_distrib)

lemma Callers_skip6:
  assumes "0 \<le> k" and "length onceFrames = 2"
  shows "runtime_Callers (2 + (k + 4)) 10 (f0 # f1 # f2 # onceFrames @ f5 # stack)
         = take 10 (drop (nat k) stack)"
proof -
  from assms(2) obtain f3 f4 where of: "onceFrames = [f3, f4]"
    by (cases onceFrames; cases "tl onceFrames") auto
  have "nat (2 + (k + 4)) = Suc (Suc (Suc (Suc (Suc (Suc (nat k))))))"
    using assms(1) by simp
  then show ?thesis by (simp add: runtime_Callers_def of)
qed

subsection \<open>C5: the skip levels of the cached ThisCodeLocation\<close>

text \<open>
  Claim C5, amended. Let \<^verbatim>\<open>sync.Once.Do\<close> put two frames between the method and the
  function literal (\<^verbatim>\<open>Do\<close> and \<^verbatim>\<open>doSlow\<close>, as Go 1.13 and later do), and let the
  once-guard of the receiver not have run. Then for every skip from 0 on for which
  skip + 6 does not overflow, and for the call without an argument, the cached
  ThisCodeLocation returns the location that ThisCodeLocation returns for the same
  argument at the same place: the four frames added (the method, the two frames of the
  once, the function literal) are the four levels added to the skip.
\<close>

theorem C5_cached_skip_compensation:
  assumes "length onceFrames = 2" and "\<not> once c"
  shows "(0 \<le> skip \<and> skip + 6 < 2 ^ 63 \<longrightarrow>
            snd (Cached_ThisCodeLocation onceFrames stack c [skip]) = Some (ThisCodeLocation stack [skip]))
       \<and> snd (Cached_ThisCodeLocation onceFrames stack c []) = Some (ThisCodeLocation stack [])"
proof (intro conjI impI)
  assume r: "0 \<le> skip \<and> skip + 6 < 2 ^ 63"
  then have nonneg: "0 \<le> skip" by simp
  from r have w: "wrap64 (skip + 4) = skip + 4" "wrap64 (2 + (skip + 4)) = 2 + (skip + 4)"
    "wrap64 (2 + skip) = 2 + skip"
    by (simp_all add: wrap64_id)
  have "ThisCodeLocation
          (frame_Cached_ThisCodeLocation_func1 # onceFrames @ frame_Cached_ThisCodeLocation # stack)
          [wrap64 (skip + 4)] = ThisCodeLocation stack [skip]"
    unfolding ThisCodeLocation_frames list.case w
      Callers_skip6 [OF nonneg assms(1)] Callers_skip2 [OF nonneg]
    by (rule refl)
  then show "snd (Cached_ThisCodeLocation onceFrames stack c [skip]) = Some (ThisCodeLocation stack [skip])"
    using assms(2) by (simp add: Cached_ThisCodeLocation_def once_Do_def Let_def)
next
  have w: "wrap64 (0 + 4) = 0 + 4" "wrap64 (2 + (0 + 4)) = 2 + (0 + 4)"
    by (simp_all add: wrap64_id)
  have plain: "runtime_Callers 2 10 (frame_runtime_Callers # frame_ThisCodeLocation # stack)
      = take 10 (drop (nat 0) stack)"
    using Callers_skip2 [of 0 frame_runtime_Callers frame_ThisCodeLocation stack] by simp
  have "ThisCodeLocation
          (frame_Cached_ThisCodeLocation_func1 # onceFrames @ frame_Cached_ThisCodeLocation # stack)
          [wrap64 (0 + 4)] = ThisCodeLocation stack []"
    unfolding ThisCodeLocation_frames list.case w
      Callers_skip6 [OF order_refl assms(1)] plain
    by (rule refl)
  then show "snd (Cached_ThisCodeLocation onceFrames stack c []) = Some (ThisCodeLocation stack [])"
    using assms(2) by (simp add: Cached_ThisCodeLocation_def once_Do_def Let_def)
qed

theorem C5_cached_skip_compensation_witness:
  "snd (Cached_ThisCodeLocation syncOnceFrames
          [\<lparr>frame_Function = ''main.handler'', frame_File = ''/app/main.go'', frame_Line = 42\<rparr>,
           \<lparr>frame_Function = ''main.main'', frame_File = ''/app/main.go'', frame_Line = 7\<rparr>]
          zeroCachedCodeLocation [1])
     = Some \<lparr>LineNo = 7, Function = ''main.main'', FilePath = ''/app/main.go''\<rparr>
   \<and> ThisCodeLocation
          [\<lparr>frame_Function = ''main.handler'', frame_File = ''/app/main.go'', frame_Line = 42\<rparr>,
           \<lparr>frame_Function = ''main.main'', frame_File = ''/app/main.go'', frame_Line = 7\<rparr>] [1]
     = \<lparr>LineNo = 7, Function = ''main.main'', FilePath = ''/app/main.go''\<rparr>"
proof -
  let ?st = "[\<lparr>frame_Function = ''main.handler'', frame_File = ''/app/main.go'', frame_Line = 42\<rparr>,
           \<lparr>frame_Function = ''main.main'', frame_File = ''/app/main.go'', frame_Line = 7\<rparr>]"
  have len: "length syncOnceFrames = 2" by (simp add: syncOnceFrames_def)
  have fresh: "\<not> once zeroCachedCodeLocation" by (simp add: zeroCachedCodeLocation_def)
  have plain: "ThisCodeLocation ?st [1] = \<lparr>LineNo = 7, Function = ''main.main'', FilePath = ''/app/main.go''\<rparr>"
    unfolding ThisCodeLocation_frames by (simp add: wrap64_id runtime_Callers_def)
  from C5_cached_skip_compensation [OF len fresh, where skip = 1 and stack = ?st] plain show ?thesis by simp
qed

text \<open>
  Claim C5 as stated fails for the skip -1, which the parameter type admits:
  ThisCodeLocation then reports its own frame, and the cached variant reports the frame
  of the cached method.
\<close>

theorem C5_negative_skip_counterexample:
  "snd (Cached_ThisCodeLocation syncOnceFrames
          [\<lparr>frame_Function = ''main.handler'', frame_File = ''/app/main.go'', frame_Line = 42\<rparr>]
          zeroCachedCodeLocation [- 1])
     = Some \<lparr>LineNo = 366,
        Function = ''github.com/newrelic/go-agent/v3/newrelic.(*CachedCodeLocation).ThisCodeLocation'',
        FilePath = ''v3/newrelic/code_level_metrics.go''\<rparr>
   \<and> ThisCodeLocation
          [\<lparr>frame_Function = ''main.handler'', frame_File = ''/app/main.go'', frame_Line = 42\<rparr>] [- 1]
     = \<lparr>LineNo = 335, Function = ''github.com/newrelic/go-agent/v3/newrelic.ThisCodeLocation'',
        FilePath = ''v3/newrelic/code_level_metrics.go''\<rparr>"
proof -
  have w: "wrap64 3 = 3" "wrap64 5 = 5" "wrap64 1 = 1"
    by (simp_all add: wrap64_id)
  show ?thesis
    unfolding ThisCodeLocation_frames Cached_ThisCodeLocation_def
    by (simp add: w once_Do_def zeroCachedCodeLocation_def ThisCodeLocation_frames
        runtime_Callers_def syncOnceFrames_def frame_Cached_ThisCodeLocation_def
        frame_ThisCodeLocation_def Let_def)
qed

end
